theory Spec2Isabelle
  imports Complex_Main "HOL-Library.Word" "HOL-Library.Log_Nat"
begin

section \<open>Python values shared by the two modules\<close>

text \<open>
  Exceptions are values.  \<open>TimeoutError\<close> is the one exception class that
  \<^verbatim>\<open>audio_recorder.py\<close> declares; the module raises it with two messages,
  \<^verbatim>\<open>"Raw audio buffer full."\<close> and
  \<^verbatim>\<open>"Audio capture timed out after %.1f seconds." % timeout\<close>, the second one kept
  here with the timeout it formats.  \<open>QueueFull\<close> and \<open>QueueEmpty\<close> are
  \<^verbatim>\<open>queue.Full\<close> and \<^verbatim>\<open>queue.Empty\<close> of the standard library.
\<close>

datatype timeout_message =
    Raw_audio_buffer_full
  | Audio_capture_timed_out rat

datatype py_error =
    IndexError
  | KeyError
  | ValueError
  | ZeroDivisionError
  | AssertionError
  | OverflowError
  | QueueFull
  | QueueEmpty
  | TimeoutError timeout_message

text \<open>
  A Python or numpy float, as far as the code compares it: a finite value (every finite
  float is a rational number), the two infinities, or NaN.  Comparisons with NaN are false.
\<close>

datatype pyfloat = Finite rat | PInf | MInf | NaN

fun flt :: "pyfloat \<Rightarrow> pyfloat \<Rightarrow> bool" where
  "flt NaN _ = False"
| "flt _ NaN = False"
| "flt (Finite a) (Finite b) = (a < b)"
| "flt (Finite a) PInf = True"
| "flt (Finite a) MInf = False"
| "flt PInf _ = False"
| "flt MInf MInf = False"
| "flt MInf _ = True"

definition fgt :: "pyfloat \<Rightarrow> pyfloat \<Rightarrow> bool" where
  "fgt a b = flt b a"

fun fle :: "pyfloat \<Rightarrow> pyfloat \<Rightarrow> bool" where
  "fle NaN _ = False"
| "fle _ NaN = False"
| "fle a b = (\<not> flt b a)"

definition fge :: "pyfloat \<Rightarrow> pyfloat \<Rightarrow> bool" where
  "fge a b = fle b a"

fun fneg :: "pyfloat \<Rightarrow> pyfloat" where
  "fneg (Finite a) = Finite (- a)"
| "fneg PInf = MInf"
| "fneg MInf = PInf"
| "fneg NaN = NaN"

text \<open>
  Arithmetic on Python floats rounds: every operation returns the double nearest to the
  exact result, ties to the even mantissa.  \<open>round_binary prec emin\<close> rounds a rational
  to the nearest binary float with \<open>prec\<close> mantissa bits whose smallest spacing is
  \<open>2 ^ emin\<close>; \<open>float64\<close> is the rounding to a double, \<open>float32\<close> the rounding to a
  numpy \<^verbatim>\<open>float32\<close>.  A decimal literal of the source such as \<^verbatim>\<open>0.025\<close> is
  \<open>float64 (25 / 1000)\<close>.
\<close>

definition pow2 :: "int \<Rightarrow> rat" where
  "pow2 k = (if 0 \<le> k then 2 ^ nat k else 1 / 2 ^ nat (- k))"

text \<open>For \<open>x > 0\<close>: the exponent \<open>e\<close> with \<open>2 ^ e \<le> x < 2 ^ (e + 1)\<close>.\<close>

definition floor_log2 :: "rat \<Rightarrow> int" where
  "floor_log2 x =
     (case quotient_of x of (p, d) \<Rightarrow>
        let k = bitlen p - bitlen d in if pow2 k \<le> x then k else k - 1)"

definition round_half_even :: "rat \<Rightarrow> int" where
  "round_half_even m =
     (let n = \<lfloor>m\<rfloor>; r = m - of_int n
      in if r < 1 / 2 then n else if 1 / 2 < r then n + 1 else if even n then n else n + 1)"

definition round_binary :: "int \<Rightarrow> int \<Rightarrow> rat \<Rightarrow> rat" where
  "round_binary prec emin x =
     (if x = 0 then 0
      else let q = max (floor_log2 \<bar>x\<bar> - (prec - 1)) emin
           in of_int (round_half_even (x / pow2 q)) * pow2 q)"

definition float64 :: "rat \<Rightarrow> rat" where
  "float64 = round_binary 53 (- 1074)"

definition float32 :: "rat \<Rightarrow> rat" where
  "float32 = round_binary 24 (- 149)"

text \<open>
  The result of a double operation whose exact value is \<open>x\<close>: a rounded value of
  magnitude \<open>2 ^ 1024\<close> or more is an infinity.
\<close>

definition to_double :: "rat \<Rightarrow> pyfloat" where
  "to_double x =
     (let y = float64 x
      in if 2 ^ 1024 \<le> y then PInf else if y \<le> - (2 ^ 1024) then MInf else Finite y)"

text \<open>
  The conversion of a Python \<^verbatim>\<open>int\<close> to a float, which is what \<^verbatim>\<open>int * float\<close> does
  with the \<^verbatim>\<open>int\<close> first, and the true division \<^verbatim>\<open>int / int\<close> (the module has
  \<^verbatim>\<open>from __future__ import division\<close>): both round correctly and raise
  \<^verbatim>\<open>OverflowError\<close> where a double cannot hold the result.
\<close>

definition float_of_int :: "int \<Rightarrow> py_error + rat" where
  "float_of_int i = (case to_double (of_int i) of Finite y \<Rightarrow> Inr y | _ \<Rightarrow> Inl OverflowError)"

definition true_div :: "int \<Rightarrow> int \<Rightarrow> py_error + rat" where
  "true_div a b =
     (if b = 0 then Inl ZeroDivisionError
      else case to_double (of_int a / of_int b) of Finite y \<Rightarrow> Inr y | _ \<Rightarrow> Inl OverflowError)"

text \<open>
  \<^verbatim>\<open>float * int\<close> and \<^verbatim>\<open>int * float\<close> on a finite float: the \<^verbatim>\<open>int\<close> is converted,
  the product rounded; a product too large is an infinity, not an exception.
\<close>

definition float_mul_int :: "rat \<Rightarrow> int \<Rightarrow> py_error + pyfloat" where
  "float_mul_int a i =
     (case float_of_int i of Inl e \<Rightarrow> Inl e | Inr b \<Rightarrow> Inr (to_double (a * b)))"

text \<open>
  \<^verbatim>\<open>int(x)\<close> of a float truncates towards zero, \<^verbatim>\<open>int(np.ceil(x))\<close> and
  \<^verbatim>\<open>int(math.ceil(x))\<close> round up; an infinity raises \<^verbatim>\<open>OverflowError\<close>, NaN raises
  \<^verbatim>\<open>ValueError\<close>.
\<close>

definition int_trunc :: "pyfloat \<Rightarrow> py_error + int" where
  "int_trunc x =
     (case x of
        Finite a \<Rightarrow> Inr (if 0 \<le> a then \<lfloor>a\<rfloor> else \<lceil>a\<rceil>)
      | NaN \<Rightarrow> Inl ValueError
      | _ \<Rightarrow> Inl OverflowError)"

definition int_ceil :: "pyfloat \<Rightarrow> py_error + int" where
  "int_ceil x =
     (case x of
        Finite a \<Rightarrow> Inr \<lceil>a\<rceil>
      | NaN \<Rightarrow> Inl ValueError
      | _ \<Rightarrow> Inl OverflowError)"

text \<open>
  Indexing of a Python list or a one-dimensional numpy array: a negative index counts
  from the end, an index out of range raises \<open>IndexError\<close>.
\<close>

definition py_index :: "'a list \<Rightarrow> int \<Rightarrow> py_error + 'a" where
  "py_index xs i =
     (if 0 \<le> i \<and> i < int (length xs) then Inr (xs ! nat i)
      else if i < 0 \<and> - int (length xs) \<le> i then Inr (xs ! nat (int (length xs) + i))
      else Inl IndexError)"


section \<open>model.py: the classification loop\<close>

text \<open>
  One entry of the dictionary that \<^verbatim>\<open>read_commands\<close> builds:
  \<^verbatim>\<open>{'key': key, 'conf': conf}\<close>.
\<close>

record command =
  key :: string
  conf :: pyfloat

type_synonym commands = "string \<rightharpoonup> command"

text \<open>
  The loop \<^verbatim>\<open>for p in range(3)\<close> of \<^verbatim>\<open>classify_audio\<close> (lines 274 to 280), over the
  remaining values of \<open>p\<close>, with the variable \<^verbatim>\<open>detection\<close> passed along.  \<open>top3\<close> holds
  indices, as \<^verbatim>\<open>np.argsort\<close> returns them.  \<^verbatim>\<open>continue\<close> is the recursive call with
  \<open>detection\<close> unchanged; \<^verbatim>\<open>top3[p] and ...\<close> does not read the score when \<^verbatim>\<open>top3[p]\<close> is 0.
\<close>

fun scan_top3 ::
  "string list \<Rightarrow> commands \<Rightarrow> pyfloat list \<Rightarrow> nat list \<Rightarrow> nat list \<Rightarrow> int \<Rightarrow> py_error + int"
where
  "scan_top3 labels cmds result top3 [] detection = Inr detection"
| "scan_top3 labels cmds result top3 (p # ps) detection =
     (case py_index top3 (int p) of
        Inl e \<Rightarrow> Inl e
      | Inr i \<Rightarrow>
         (case py_index labels (int i) of
            Inl e \<Rightarrow> Inl e
          | Inr label \<Rightarrow>
             (case cmds label of
                None \<Rightarrow> scan_top3 labels cmds result top3 ps detection
              | Some c \<Rightarrow>
                 if i = 0 then scan_top3 labels cmds result top3 ps detection
                 else
                   (case py_index result (int i) of
                      Inl e \<Rightarrow> Inl e
                    | Inr score \<Rightarrow>
                       if fgt score (conf c) \<and> detection < 0
                       then scan_top3 labels cmds result top3 ps (int i)
                       else scan_top3 labels cmds result top3 ps detection))))"

text \<open>
  Lines 271 to 280: the candidate of one frame, \<open>-1\<close> when there is none.  \<open>argsort\<close>
  stands for \<^verbatim>\<open>np.argsort\<close>, which is numpy's (its order among equal scores is not fixed by
  its default sorting kind), so it is a parameter: every theorem below holds for whatever
  ranking it returns.
\<close>

definition detect ::
  "(pyfloat list \<Rightarrow> nat list) \<Rightarrow> string list \<Rightarrow> commands \<Rightarrow> pyfloat \<Rightarrow> pyfloat list
     \<Rightarrow> py_error + int"
where
  "detect argsort labels cmds negative_threshold result =
     (case py_index result 0 of
        Inl e \<Rightarrow> Inl e
      | Inr r0 \<Rightarrow>
         if flt r0 negative_threshold
         then scan_top3 labels cmds result (take 3 (argsort (map fneg result))) [0, 1, 2] (- 1)
         else Inr (- 1))"

text \<open>
  Lines 281 to 287: what the loop does with the frame's \<^verbatim>\<open>detection\<close>.  The result is
  the new \<^verbatim>\<open>last_detection\<close> and the key passed to \<^verbatim>\<open>dectection_callback\<close>, if it was
  called.  \<^verbatim>\<open>labels[detection]\<close> is ordinary Python indexing, also when \<open>detection\<close> is the
  sentinel \<open>-1\<close>.
\<close>

definition dispatch ::
  "string list \<Rightarrow> commands \<Rightarrow> int \<Rightarrow> int \<Rightarrow> py_error + (int \<times> string option)"
where
  "dispatch labels cmds detection last_detection =
     (let last1 = (if detection < 0 \<and> last_detection > 0 then 0 else last_detection)
      in case py_index labels detection of
           Inl e \<Rightarrow> Inl e
         | Inr label \<Rightarrow>
            (case cmds label of
               None \<Rightarrow> Inr (last1, None)
             | Some c \<Rightarrow>
                if detection \<noteq> last1 then Inr (detection, Some (key c))
                else Inr (last1, None)))"

text \<open>
  One pass of the \<^verbatim>\<open>while\<close> body from line 270 on, for the score vector \<open>result\<close> that
  the interpreter returned.  \<open>has_callback\<close> is the truth value of
  \<^verbatim>\<open>dectection_callback\<close>.
\<close>

definition classify_frame ::
  "(pyfloat list \<Rightarrow> nat list) \<Rightarrow> string list \<Rightarrow> commands \<Rightarrow> pyfloat \<Rightarrow> bool
     \<Rightarrow> pyfloat list \<Rightarrow> int \<Rightarrow> py_error + (int \<times> string option)"
where
  "classify_frame argsort labels cmds negative_threshold has_callback result last_detection =
     (if has_callback then
        (case detect argsort labels cmds negative_threshold result of
           Inl e \<Rightarrow> Inl e
         | Inr detection \<Rightarrow> dispatch labels cmds detection last_detection)
      else Inr (last_detection, None))"

text \<open>
  The loop over a sequence of frames, started with \<^verbatim>\<open>last_detection\<close> as given (the
  source starts with \<open>-1\<close>): the keys passed to the callback, in order, and the final
  \<^verbatim>\<open>last_detection\<close>.  An exception ends the loop.
\<close>

fun classify_frames ::
  "(pyfloat list \<Rightarrow> nat list) \<Rightarrow> string list \<Rightarrow> commands \<Rightarrow> pyfloat \<Rightarrow> bool
     \<Rightarrow> pyfloat list list \<Rightarrow> int \<Rightarrow> py_error + (int \<times> string list)"
where
  "classify_frames argsort labels cmds thr cb [] last_detection = Inr (last_detection, [])"
| "classify_frames argsort labels cmds thr cb (result # rest) last_detection =
     (case classify_frame argsort labels cmds thr cb result last_detection of
        Inl e \<Rightarrow> Inl e
      | Inr (last', out) \<Rightarrow>
         (case classify_frames argsort labels cmds thr cb rest last' of
            Inl e \<Rightarrow> Inl e
          | Inr (last'', keys) \<Rightarrow>
             Inr (last'', (case out of None \<Rightarrow> [] | Some k \<Rightarrow> [k]) @ keys)))"

text \<open>
  The same loop when the candidate of each frame is given: lines 281 to 287 run once for
  each candidate.
\<close>

fun dispatch_all ::
  "string list \<Rightarrow> commands \<Rightarrow> int list \<Rightarrow> int \<Rightarrow> py_error + (int \<times> string list)"
where
  "dispatch_all labels cmds [] last_detection = Inr (last_detection, [])"
| "dispatch_all labels cmds (d # ds) last_detection =
     (case dispatch labels cmds d last_detection of
        Inl e \<Rightarrow> Inl e
      | Inr (last', out) \<Rightarrow>
         (case dispatch_all labels cmds ds last' of
            Inl e \<Rightarrow> Inl e
          | Inr (last'', keys) \<Rightarrow>
             Inr (last'', (case out of None \<Rightarrow> [] | Some k \<Rightarrow> [k]) @ keys)))"

text \<open>
  A ranking to run the loop with: the stable insertion sort of the indices by ascending
  value, NaN last, which is what \<^verbatim>\<open>np.argsort\<close> gives on vectors without equal entries.
\<close>

fun sort_before :: "pyfloat \<Rightarrow> pyfloat \<Rightarrow> bool" where
  "sort_before NaN _ = False"
| "sort_before _ NaN = True"
| "sort_before a b = flt a b"

fun insert_index :: "pyfloat list \<Rightarrow> nat \<Rightarrow> nat list \<Rightarrow> nat list" where
  "insert_index v i [] = [i]"
| "insert_index v i (j # js) =
     (if sort_before (v ! i) (v ! j) then i # j # js else j # insert_index v i js)"

definition stable_argsort :: "pyfloat list \<Rightarrow> nat list" where
  "stable_argsort v = foldr (insert_index v) [0 ..< length v] []"


section \<open>model.py: the command table\<close>

text \<open>
  Strings are lists of characters with code points below 256.  \<^verbatim>\<open>str.rstrip()\<close> drops
  the trailing characters that \<^verbatim>\<open>str.isspace\<close> accepts: in that range the code points
  9 to 13, 28 to 32, 133 and 160.
\<close>

definition is_space :: "char \<Rightarrow> bool" where
  "is_space c = (of_char c \<in> set [9, 10, 11, 12, 13, 28, 29, 30, 31, 32, 133, 160 :: nat])"

definition rstrip :: "string \<Rightarrow> string" where
  "rstrip s = rev (dropWhile is_space (rev s))"

text \<open>\<^verbatim>\<open>s.split(sep)\<close> for a separator of one character: the fields, empty ones kept.\<close>

fun split_on :: "char \<Rightarrow> string \<Rightarrow> string list" where
  "split_on sep [] = [[]]"
| "split_on sep (c # cs) =
     (if c = sep then [] # split_on sep cs
      else (case split_on sep cs of [] \<Rightarrow> [[c]] | w # ws \<Rightarrow> (c # w) # ws))"

text \<open>The literal \<^verbatim>\<open>0.4\<close> of line 171.\<close>

definition default_conf :: pyfloat where
  "default_conf = Finite (float64 (2 / 5))"

text \<open>
  The body of the loop of \<^verbatim>\<open>read_commands\<close> (lines 170 to 173) for one row, the list
  of the fields of a line.  Unpacking a row that does not have three fields raises
  \<^verbatim>\<open>ValueError\<close>.  \<open>py_float\<close> stands for Python's \<^verbatim>\<open>float(str)\<close>, a builtin: it is a
  parameter, \<open>None\<close> where \<^verbatim>\<open>float\<close> raises \<^verbatim>\<open>ValueError\<close>.
\<close>

fun add_command ::
  "(string \<Rightarrow> pyfloat option) \<Rightarrow> commands \<Rightarrow> string list \<Rightarrow> py_error + commands"
where
  "add_command py_float cmds [command, k, confidence] =
     (let cmds1 = cmds(command \<mapsto> \<lparr>key = k, conf = default_conf\<rparr>)
      in if confidence = [] then Inr cmds1
         else (case py_float confidence of
                 None \<Rightarrow> Inl ValueError
               | Some v \<Rightarrow>
                  if fle (Finite 0) v \<and> fle v (Finite 1)
                  then Inr (cmds1(command \<mapsto> \<lparr>key = k, conf = v\<rparr>))
                  else Inr cmds1))"
| "add_command py_float cmds row = Inl ValueError"

fun add_commands ::
  "(string \<Rightarrow> pyfloat option) \<Rightarrow> commands \<Rightarrow> string list list \<Rightarrow> py_error + commands"
where
  "add_commands py_float cmds [] = Inr cmds"
| "add_commands py_float cmds (row # rows) =
     (case add_command py_float cmds row of
        Inl e \<Rightarrow> Inl e
      | Inr cmds' \<Rightarrow> add_commands py_float cmds' rows)"

text \<open>
  \<^verbatim>\<open>read_commands\<close>, from the list that \<^verbatim>\<open>f.readlines()\<close> returns (each line with
  its line end).
\<close>

definition read_commands ::
  "(string \<Rightarrow> pyfloat option) \<Rightarrow> string list \<Rightarrow> py_error + commands"
where
  "read_commands py_float lines =
     add_commands py_float Map.empty (map (\<lambda>l. split_on CHR '','' (rstrip l)) lines)"

text \<open>\<^verbatim>\<open>read_labels\<close> (line 162), from the list that \<^verbatim>\<open>f.readlines()\<close> returns.\<close>

definition read_labels :: "string list \<Rightarrow> string list" where
  "read_labels lines = ''negative'' # map rstrip lines"

text \<open>
  What \<^verbatim>\<open>float\<close> returns on four strings, to run \<^verbatim>\<open>read_commands\<close> with; it raises
  on every other string.
\<close>

definition demo_float :: "string \<Rightarrow> pyfloat option" where
  "demo_float = map_of
     [(''0.7'', Finite (float64 (7 / 10))), (''1.5'', Finite (3 / 2)),
      (''-1'', Finite (- 1)), (''nan'', NaN)]"


section \<open>Tables to run the loop on\<close>

text \<open>
  A label table and a command table to run the loop on: \<^verbatim>\<open>read_labels\<close> puts
  \<^verbatim>\<open>'negative'\<close> first, the three commands have the default confidence.
\<close>

definition demo_labels :: "string list" where
  "demo_labels = [''negative'', ''up'', ''down'', ''left'']"

definition demo_commands :: commands where
  "demo_commands = map_of
     [(''up'', \<lparr>key = ''KEY_UP'', conf = Finite (2 / 5)\<rparr>),
      (''down'', \<lparr>key = ''KEY_DOWN'', conf = Finite (2 / 5)\<rparr>),
      (''left'', \<lparr>key = ''KEY_LEFT'', conf = Finite (2 / 5)\<rparr>)]"

text \<open>The same table with a command bound to the label at index 0.\<close>

definition demo_commands_negative :: commands where
  "demo_commands_negative =
     demo_commands(''negative'' \<mapsto> \<lparr>key = ''KEY_NEGATIVE'', conf = Finite (1 / 10)\<rparr>)"

text \<open>
  The values \<^verbatim>\<open>last_detection\<close> takes in a run that starts at \<open>-1\<close>: the sentinel, or
  an index into a label table that has at least one label after \<^verbatim>\<open>'negative'\<close>.
\<close>

definition last_ok :: "string list \<Rightarrow> int \<Rightarrow> bool" where
  "last_ok labels l = (l = - 1 \<or> (0 \<le> l \<and> l < int (length labels) \<and> 2 \<le> length labels))"


section \<open>audio_recorder.py: the queue of raw audio\<close>

text \<open>
  The standard library's \<^verbatim>\<open>queue.Queue\<close>, as far as the recorder uses it: its bound
  \<open>maxsize\<close> (no bound when it is not positive) and the items it holds, oldest first.
  \<open>get_timeouts\<close> is not a field of \<^verbatim>\<open>queue.Queue\<close>: it records the \<^verbatim>\<open>timeout\<close> each
  call of \<^verbatim>\<open>get\<close> was given, in the order of the calls, so that the timeouts the
  recorder waits with can be stated.
\<close>

record 'a py_queue =
  maxsize :: int
  items :: "'a list"
  get_timeouts :: "rat list"

text \<open>
  \<^verbatim>\<open>Queue.put(item, block=False)\<close>: with a positive \<open>maxsize\<close> and that many items held
  it raises \<^verbatim>\<open>Full\<close> at once; otherwise the item goes to the end.
\<close>

definition queue_put_nowait :: "'a py_queue \<Rightarrow> 'a \<Rightarrow> py_error + 'a py_queue" where
  "queue_put_nowait q x =
     (if 0 < maxsize q \<and> maxsize q \<le> int (length (items q)) then Inl QueueFull
      else Inr (q\<lparr>items := items q @ [x]\<rparr>))"

text \<open>
  \<^verbatim>\<open>Queue.get(timeout=t)\<close>: a negative timeout raises \<^verbatim>\<open>ValueError\<close>; an item held
  is returned at once, the oldest first.  The model runs one thread at a time: no
  producer runs while the consumer waits, so a \<^verbatim>\<open>get\<close> on an empty queue waits its
  timeout and raises \<^verbatim>\<open>Empty\<close>.
\<close>

definition queue_get :: "'a py_queue \<Rightarrow> rat \<Rightarrow> (py_error + 'a) \<times> 'a py_queue" where
  "queue_get q timeout =
     (if timeout < 0 then (Inl ValueError, q)
      else (case items q of
              [] \<Rightarrow> (Inl QueueEmpty, q\<lparr>get_timeouts := get_timeouts q @ [timeout]\<rparr>)
            | x # xs \<Rightarrow> (Inr x, q\<lparr>items := xs, get_timeouts := get_timeouts q @ [timeout]\<rparr>)))"


section \<open>audio_recorder.py: the recorder\<close>

text \<open>The class constants of \<^verbatim>\<open>AudioRecorder\<close>.\<close>

definition frames_per_chunk :: int where
  "frames_per_chunk = 1024"

definition max_queue_chunks :: int where
  "max_queue_chunks = 1200"

definition timeout_factor :: int where
  "timeout_factor = 4"

text \<open>
  The fields of an \<^verbatim>\<open>AudioRecorder\<close> that the buffering code reads and writes.  An item
  of the queue is the pair \<^verbatim>\<open>(in_data, time.time())\<close>: the bytes PyAudio delivered and
  the time of the callback.  \<open>stream_is_active\<close> is what \<^verbatim>\<open>self._stream.is_active()\<close>
  answers.
\<close>

type_synonym raw_chunk = "8 word list \<times> rat"

record recorder =
  downsample_factor :: int
  raw_audio_sample_rate_hz :: int
  audio_sample_rate_hz :: int
  raw_audio_queue :: "raw_chunk py_queue"
  stream_is_active :: bool

text \<open>
  \<^verbatim>\<open>__init__\<close> (lines 84 to 94): \<^verbatim>\<open>//\<close> raises \<^verbatim>\<open>ZeroDivisionError\<close> on a zero
  \<^verbatim>\<open>downsample_factor\<close>; the queue is made with \<^verbatim>\<open>max_queue_chunks\<close>.
\<close>

definition recorder_init :: "int \<Rightarrow> int \<Rightarrow> py_error + recorder" where
  "recorder_init raw_rate downsample =
     (if downsample = 0 then Inl ZeroDivisionError
      else Inr \<lparr>downsample_factor = downsample,
                raw_audio_sample_rate_hz = raw_rate,
                audio_sample_rate_hz = raw_rate div downsample,
                raw_audio_queue = \<lparr>maxsize = max_queue_chunks, items = [], get_timeouts = []\<rparr>,
                stream_is_active = False\<rparr>)"

text \<open>
  \<^verbatim>\<open>_enqueue_raw_audio\<close> (lines 158 to 165), called with the value \<open>now\<close> of
  \<^verbatim>\<open>time.time()\<close>.  Its return value \<^verbatim>\<open>(None, pyaudio.paContinue)\<close> is the unit here.
\<close>

definition enqueue_raw_audio ::
  "recorder \<Rightarrow> 8 word list \<Rightarrow> rat \<Rightarrow> (py_error + unit) \<times> recorder"
where
  "enqueue_raw_audio r in_data now =
     (case queue_put_nowait (raw_audio_queue r) (in_data, now) of
        Inl e \<Rightarrow> (Inl (TimeoutError Raw_audio_buffer_full), r)
      | Inr q \<Rightarrow> (Inr (), r\<lparr>raw_audio_queue := q\<rparr>))"

text \<open>
  \<^verbatim>\<open>np.fromstring(raw_data, np.int16)\<close>: two bytes a sample, the low byte first, read
  as two's complement; a byte left over raises \<^verbatim>\<open>ValueError\<close>.
\<close>

fun fromstring_int16 :: "8 word list \<Rightarrow> py_error + int list" where
  "fromstring_int16 [] = Inr []"
| "fromstring_int16 [b] = Inl ValueError"
| "fromstring_int16 (lo # hi # bs) =
     (case fromstring_int16 bs of
        Inl e \<Rightarrow> Inl e
      | Inr xs \<Rightarrow>
         Inr ((let u = uint lo + 256 * uint hi in if u < 32768 then u else u - 65536) # xs))"

text \<open>\<^verbatim>\<open>_get_chunk\<close> (lines 167 to 171).\<close>

definition get_chunk :: "recorder \<Rightarrow> rat \<Rightarrow> (py_error + (int list \<times> rat)) \<times> recorder" where
  "get_chunk r timeout =
     (case queue_get (raw_audio_queue r) timeout of
        (Inl e, q) \<Rightarrow> (Inl e, r\<lparr>raw_audio_queue := q\<rparr>)
      | (Inr (raw_data, timestamp), q) \<Rightarrow>
         (case fromstring_int16 raw_data of
            Inl e \<Rightarrow> (Inl e, r\<lparr>raw_audio_queue := q\<rparr>)
          | Inr array_data \<Rightarrow> (Inr (array_data, timestamp), r\<lparr>raw_audio_queue := q\<rparr>)))"

text \<open>
  The list comprehension of line 212, \<^verbatim>\<open>[self._get_chunk(timeout=timeout) for _ in
  range(num_audio_chunks)]\<close>: the calls one after the other, ended by the first exception.
\<close>

fun get_chunks ::
  "recorder \<Rightarrow> rat \<Rightarrow> nat \<Rightarrow> (py_error + (int list \<times> rat) list) \<times> recorder"
where
  "get_chunks r timeout 0 = (Inr [], r)"
| "get_chunks r timeout (Suc n) =
     (case get_chunk r timeout of
        (Inl e, r') \<Rightarrow> (Inl e, r')
      | (Inr c, r') \<Rightarrow>
         (case get_chunks r' timeout n of
            (Inl e, r'') \<Rightarrow> (Inl e, r'')
          | (Inr cs, r'') \<Rightarrow> (Inr (c # cs), r'')))"

text \<open>\<^verbatim>\<open>_chunk_duration_seconds\<close> (line 148), a true division.\<close>

definition chunk_duration_seconds :: "recorder \<Rightarrow> py_error + rat" where
  "chunk_duration_seconds r = true_div frames_per_chunk (raw_audio_sample_rate_hz r)"

text \<open>Lines 203 to 208: the number of chunks a call of \<^verbatim>\<open>get_audio\<close> asks the queue for.\<close>

definition num_audio_chunks :: "recorder \<Rightarrow> int \<Rightarrow> py_error + int" where
  "num_audio_chunks r num_audio_frames =
     (case true_div (num_audio_frames * downsample_factor r) frames_per_chunk of
        Inl e \<Rightarrow> Inl e
      | Inr x \<Rightarrow> Inr (if \<lceil>x\<rceil> < 1 then 1 else \<lceil>x\<rceil>))"

text \<open>
  The slice \<^verbatim>\<open>audio[::step]\<close>: every \<open>step\<close>-th element from the first one on; with a
  negative step every \<open>-step\<close>-th element from the last one backwards; a zero step raises
  \<^verbatim>\<open>ValueError\<close>.
\<close>

function every_nth :: "nat \<Rightarrow> 'a list \<Rightarrow> 'a list" where
  "every_nth k [] = []"
| "every_nth k (x # xs) = x # every_nth k (drop (k - 1) xs)"
  by pat_completeness auto
termination
  by (relation "measure (\<lambda>(k, xs). length xs)") auto

definition slice_step :: "'a list \<Rightarrow> int \<Rightarrow> py_error + 'a list" where
  "slice_step xs step =
     (if step = 0 then Inl ValueError
      else if 0 < step then Inr (every_nth (nat step) xs)
      else Inr (every_nth (nat (- step)) (rev xs)))"

text \<open>
  \<^verbatim>\<open>get_audio\<close> (lines 203 to 233): the result \<^verbatim>\<open>(audio * 0.5, timestamps[0],
  timestamps[-1])\<close> or the exception, and the recorder after the call.  Only
  \<^verbatim>\<open>queue.Empty\<close> is caught and raised again as \<^verbatim>\<open>TimeoutError\<close>.  The product of an
  \<^verbatim>\<open>int16\<close> sample with \<^verbatim>\<open>0.5\<close> is a double and exact.
\<close>

definition get_audio ::
  "recorder \<Rightarrow> int \<Rightarrow> (py_error + (rat list \<times> rat \<times> rat)) \<times> recorder"
where
  "get_audio r num_audio_frames =
     (case num_audio_chunks r num_audio_frames of
        Inl e \<Rightarrow> (Inl e, r)
      | Inr n \<Rightarrow>
         (case chunk_duration_seconds r of
            Inl e \<Rightarrow> (Inl e, r)
          | Inr duration \<Rightarrow>
             (case float_mul_int duration timeout_factor of
                Inr (Finite timeout) \<Rightarrow>
                  (case get_chunks r timeout (nat n) of
                     (Inl QueueEmpty, r') \<Rightarrow>
                       (Inl (TimeoutError (Audio_capture_timed_out timeout)), r')
                   | (Inl e, r') \<Rightarrow> (Inl e, r')
                   | (Inr chunks, r') \<Rightarrow>
                       (case (if downsample_factor r \<noteq> 1
                              then slice_step (concat (map fst chunks)) (downsample_factor r)
                              else Inr (concat (map fst chunks))) of
                          Inl e \<Rightarrow> (Inl e, r')
                        | Inr audio \<Rightarrow>
                           (case chunks of
                              [] \<Rightarrow> (Inl ValueError, r')
                            | c # cs \<Rightarrow>
                               (Inr (map (\<lambda>s. of_int s / 2) audio, snd c, snd (last chunks)),
                                r'))))
              | _ \<Rightarrow> (Inl OverflowError, r))))"

text \<open>
  A producer and a consumer working on the queue in some order: the calls of
  \<^verbatim>\<open>_enqueue_raw_audio\<close> and of \<^verbatim>\<open>_get_chunk\<close>, one at a time.  An exception of a call
  leaves the recorder as the call left it, and the next call runs.
\<close>

datatype queue_op = Enqueue "8 word list" rat | Dequeue rat

fun run_op :: "recorder \<Rightarrow> queue_op \<Rightarrow> recorder" where
  "run_op r (Enqueue in_data now) = snd (enqueue_raw_audio r in_data now)"
| "run_op r (Dequeue timeout) = snd (get_chunk r timeout)"

definition run_ops :: "recorder \<Rightarrow> queue_op list \<Rightarrow> recorder" where
  "run_ops r ops = foldl run_op r ops"

text \<open>A chunk of silence with \<open>n\<close> frames, and a recorder whose queue holds chunks.\<close>

definition silence :: "nat \<Rightarrow> 8 word list" where
  "silence n = replicate (2 * n) 0"


section \<open>Properties of the classification loop\<close>

lemma py_index_nat_range:
  "py_index xs (int i) = Inr x \<Longrightarrow> i < length xs \<and> x = xs ! i"
  by (auto simp: py_index_def split: if_splits)

lemma scan_top3_range:
  "scan_top3 labels cmds result top3 ps d = Inr d' \<Longrightarrow>
     d' = d \<or> (0 < d' \<and> d' < int (length labels) \<and> (\<exists>c. cmds (labels ! nat d') = Some c))"
proof (induction ps arbitrary: d)
  case Nil
  then show ?case by simp
next
  case (Cons p ps)
  then show ?case
    by (fastforce split: sum.splits option.splits if_splits dest: py_index_nat_range)
qed

text \<open>
  A frame's candidate is the sentinel or the index of a label after \<^verbatim>\<open>'negative'\<close> that
  the command table holds.
\<close>

lemma detect_range:
  assumes "detect argsort labels cmds thr result = Inr d"
  shows "d = - 1 \<or> (0 < d \<and> d < int (length labels) \<and> (\<exists>c. cmds (labels ! nat d) = Some c))"
proof (cases "py_index result 0")
  case (Inl e)
  with assms show ?thesis by (simp add: detect_def)
next
  case (Inr r0)
  show ?thesis
  proof (cases "flt r0 thr")
    case True
    with assms Inr have
      "scan_top3 labels cmds result (take 3 (argsort (map fneg result))) [0, 1, 2] (- 1) = Inr d"
      by (simp add: detect_def del: scan_top3.simps)
    from scan_top3_range [OF this] show ?thesis by blast
  next
    case False
    with assms Inr show ?thesis by (simp add: detect_def)
  qed
qed

text \<open>
  Line 272: when \<^verbatim>\<open>result[0] < negative_threshold\<close> is false, the frame has no
  candidate, whatever the other scores are.
\<close>

lemma detect_negative:
  "py_index result 0 = Inr r0 \<Longrightarrow> \<not> flt r0 thr \<Longrightarrow>
     detect argsort labels cmds thr result = Inr (- 1)"
  by (simp add: detect_def)

lemma dispatch_inv:
  assumes run: "dispatch labels cmds d l = Inr (l', out)"
    and cand: "d = - 1 \<or> (0 < d \<and> d < int (length labels))"
    and inv: "last_ok labels l"
  shows "last_ok labels l' \<and>
         (\<forall>k. out = Some k \<longrightarrow>
            (\<exists>i c. 0 < i \<and> i < length labels \<and> cmds (labels ! i) = Some c \<and> key c = k))"
proof -
  define l1 where "l1 = (if d < 0 \<and> 0 < l then 0 else l)"
  define j where "j = nat (if d < 0 then int (length labels) + d else d)"
  from run obtain label where lab: "py_index labels d = Inr label"
    by (auto simp: dispatch_def Let_def split: sum.splits)
  then have j: "j < length labels" "label = labels ! j"
    by (auto simp: py_index_def j_def split: if_splits)
  have l1_ok: "last_ok labels l1"
    using inv by (auto simp: l1_def last_ok_def)
  show ?thesis
  proof (cases out)
    case None
    with run lab have "l' = l1"
      by (auto simp: dispatch_def l1_def split: option.splits if_splits)
    with l1_ok None show ?thesis by simp
  next
    case (Some k)
    with run lab obtain c where c: "cmds label = Some c" "d \<noteq> l1" "l' = d" "k = key c"
      by (auto simp: dispatch_def l1_def split: option.splits if_splits)
    have "0 < j"
    proof (cases "d = - 1")
      case True
      with c(2) have "l \<noteq> - 1" by (auto simp: l1_def split: if_splits)
      with inv have "2 \<le> length labels" by (simp add: last_ok_def)
      with True show ?thesis by (simp add: j_def)
    next
      case False
      with cand show ?thesis by (simp add: j_def)
    qed
    moreover have "last_ok labels l'"
      using cand c(3) j(1) \<open>0 < j\<close> by (auto simp: last_ok_def j_def split: if_splits)
    ultimately show ?thesis using Some c j by auto
  qed
qed

lemma classify_frame_inv:
  assumes run: "classify_frame argsort labels cmds thr cb result l = Inr (l', out)"
    and inv: "last_ok labels l"
  shows "last_ok labels l' \<and>
         (\<forall>k. out = Some k \<longrightarrow>
            (\<exists>i c. 0 < i \<and> i < length labels \<and> cmds (labels ! i) = Some c \<and> key c = k))"
proof (cases cb)
  case False
  with run inv show ?thesis by (simp add: classify_frame_def)
next
  case True
  with run obtain d where d: "detect argsort labels cmds thr result = Inr d"
    and disp: "dispatch labels cmds d l = Inr (l', out)"
    by (auto simp: classify_frame_def split: sum.splits)
  from detect_range [OF d] have "d = - 1 \<or> (0 < d \<and> d < int (length labels))" by blast
  from dispatch_inv [OF disp this inv] show ?thesis .
qed

lemma classify_frames_keys:
  "classify_frames argsort labels cmds thr cb frames l = Inr (l', keys) \<Longrightarrow> last_ok labels l \<Longrightarrow>
     \<forall>k \<in> set keys. \<exists>i c. 0 < i \<and> i < length labels \<and> cmds (labels ! i) = Some c \<and> key c = k"
proof (induction frames arbitrary: l keys)
  case Nil
  then show ?case by simp
next
  case (Cons result rest)
  from Cons.prems(1) obtain l1 out keys1 where
    step: "classify_frame argsort labels cmds thr cb result l = Inr (l1, out)"
    and rest: "classify_frames argsort labels cmds thr cb rest l1 = Inr (l', keys1)"
    and keys: "keys = (case out of None \<Rightarrow> [] | Some k \<Rightarrow> [k]) @ keys1"
    by (auto split: sum.splits prod.splits)
  from classify_frame_inv [OF step Cons.prems(2)] have
    inv1: "last_ok labels l1"
    and out: "\<forall>k. out = Some k \<longrightarrow>
            (\<exists>i c. 0 < i \<and> i < length labels \<and> cmds (labels ! i) = Some c \<and> key c = k)"
    by blast+
  from Cons.IH [OF rest inv1] out keys show ?case
    by (auto split: option.splits)
qed

text \<open>
  The debounce sequence \<open>[A, A, A, B, B, -, A]\<close> does give the keys of \<open>A\<close>, \<open>B\<close>, \<open>A\<close>
  when the last label of the label table has no command: then \<^verbatim>\<open>labels[-1]\<close> is not in
  the command table and the frame without a candidate calls nothing.
\<close>

lemma dispatch_all_debounce:
  assumes a: "0 < a" "a < int (length labels)" and b: "0 < b" "b < int (length labels)"
    and ab: "a \<noteq> b"
    and ca: "cmds (labels ! nat a) = Some ca" and cb: "cmds (labels ! nat b) = Some cb"
    and last: "cmds (last labels) = None"
  shows "dispatch_all labels cmds [a, a, a, b, b, - 1, a] (- 1) = Inr (a, [key ca, key cb, key ca])"
proof -
  have A: "py_index labels a = Inr (labels ! nat a)" using a by (simp add: py_index_def)
  have B: "py_index labels b = Inr (labels ! nat b)" using b by (simp add: py_index_def)
  have "labels \<noteq> []" using a by auto
  then have L: "py_index labels (- 1) = Inr (last labels)"
    by (cases labels rule: rev_cases) (auto simp: py_index_def nat_add_distrib)
  show ?thesis using a b ab ca cb last
    by (simp add: dispatch_def A B L)
qed

text \<open>
  Claim C1 (the debounce scenario \<open>[A, A, A, B, B, -, A]\<close> dispatches exactly
  \<open>[A, B, A]\<close>, nothing on the frame without a detection), at the label table
  \<open>negative, up, down, left\<close> with all three commands bound, \<open>A\<close> the label \<open>up\<close> (index 1)
  and \<open>B\<close> the label \<open>down\<close> (index 2): the loop calls the callback four times.  On the
  frame without a detection \<^verbatim>\<open>last_detection\<close> is reset to 0, \<^verbatim>\<open>labels[-1]\<close> is the last
  label \<open>left\<close>, which is in the command table, and \<open>-1\<close> differs from 0, so the key of
  \<open>left\<close> is dispatched.
\<close>

theorem debounce_dispatches_on_no_detection:
  "dispatch_all demo_labels demo_commands [1, 1, 1, 2, 2, - 1, 1] (- 1)
     = Inr (1, [''KEY_UP'', ''KEY_DOWN'', ''KEY_LEFT'', ''KEY_UP''])"
  by (simp add: demo_labels_def demo_commands_def dispatch_def py_index_def)

text \<open>
  Claim C2 (a frame with \<open>score[0] \<ge> negativeThreshold\<close> has no detection and dispatches
  nothing), at the score vector \<open>[0.9, 0.05, 0.03, 0.02]\<close> and threshold 0.6 of the
  claim: the frame has no candidate, whatever ranking \<^verbatim>\<open>np.argsort\<close> returns; but when
  it follows a frame that detected \<open>up\<close>, the loop dispatches the key of the last label
  of the table on it.
\<close>

theorem negative_frame_dispatches_last_label:
  "detect argsort demo_labels demo_commands (Finite (3 / 5))
      [Finite (9 / 10), Finite (1 / 20), Finite (3 / 100), Finite (1 / 50)] = Inr (- 1)
   \<and> classify_frames stable_argsort demo_labels demo_commands (Finite (3 / 5)) True
      [[Finite (1 / 10), Finite (4 / 5), Finite (1 / 20), Finite (1 / 20)],
       [Finite (9 / 10), Finite (1 / 20), Finite (3 / 100), Finite (1 / 50)]] (- 1)
     = Inr (- 1, [''KEY_UP'', ''KEY_LEFT''])"
  by (simp add: demo_labels_def demo_commands_def dispatch_def py_index_def classify_frame_def
        detect_def stable_argsort_def fgt_def upt_rec)

text \<open>
  Claim C10: the label at index 0 never becomes the candidate of a frame, and no key the
  loop dispatches is dispatched for it: a frame's candidate, when the frame has one
  computed, is never 0, for every ranking, label table, command table (also one that
  binds the label at index 0), threshold and score vector; and in every run of the loop
  from the initial \<^verbatim>\<open>last_detection = -1\<close>, each key passed to the callback is the key
  of a command-table label at an index greater than 0.
\<close>

theorem negative_label_never_candidate:
  "(detect argsort labels cmds thr result = Inr d \<longrightarrow> d \<noteq> 0) \<and>
   (classify_frames argsort labels cmds thr cb frames (- 1) = Inr (l, keys) \<longrightarrow>
      (\<forall>k \<in> set keys. \<exists>i c. 0 < i \<and> i < length labels \<and> cmds (labels ! i) = Some c \<and> key c = k))"
proof (intro conjI impI)
  assume "detect argsort labels cmds thr result = Inr d"
  from detect_range [OF this] show "d \<noteq> 0" by auto
next
  assume "classify_frames argsort labels cmds thr cb frames (- 1) = Inr (l, keys)"
  moreover have "last_ok labels (- 1)" by (simp add: last_ok_def)
  ultimately show
    "\<forall>k \<in> set keys. \<exists>i c. 0 < i \<and> i < length labels \<and> cmds (labels ! i) = Some c \<and> key c = k"
    by (rule classify_frames_keys)
qed

text \<open>
  The theorem at a frame where the label at index 0 is in the command table and its
  score 0.5 passes its confidence 0.1: the candidate is \<open>up\<close> (index 1), and the only
  key dispatched is the key of \<open>up\<close>.
\<close>

theorem negative_label_never_candidate_witness:
  "detect stable_argsort demo_labels demo_commands_negative (Finite (3 / 5))
      [Finite (1 / 2), Finite (9 / 20), Finite (3 / 100), Finite (1 / 50)] = Inr 1
   \<and> (1 :: int) \<noteq> 0
   \<and> classify_frames stable_argsort demo_labels demo_commands_negative (Finite (3 / 5)) True
      [[Finite (1 / 2), Finite (9 / 20), Finite (3 / 100), Finite (1 / 50)]] (- 1)
       = Inr (1, [''KEY_UP''])
   \<and> (\<exists>i c. 0 < i \<and> i < length demo_labels
         \<and> demo_commands_negative (demo_labels ! i) = Some c \<and> key c = ''KEY_UP'')
   \<and> demo_commands_negative (demo_labels ! 0)
       = Some \<lparr>key = ''KEY_NEGATIVE'', conf = Finite (1 / 10)\<rparr>"
proof -
  have d: "detect stable_argsort demo_labels demo_commands_negative (Finite (3 / 5))
      [Finite (1 / 2), Finite (9 / 20), Finite (3 / 100), Finite (1 / 50)] = Inr 1"
    by (simp add: demo_labels_def demo_commands_negative_def demo_commands_def py_index_def
        detect_def stable_argsort_def fgt_def upt_rec)
  have r: "classify_frames stable_argsort demo_labels demo_commands_negative (Finite (3 / 5)) True
      [[Finite (1 / 2), Finite (9 / 20), Finite (3 / 100), Finite (1 / 50)]] (- 1)
       = Inr (1, [''KEY_UP''])"
    by (simp add: classify_frame_def d dispatch_def)
       (simp add: demo_labels_def demo_commands_negative_def demo_commands_def py_index_def)
  have n: "demo_commands_negative (demo_labels ! 0)
       = Some \<lparr>key = ''KEY_NEGATIVE'', conf = Finite (1 / 10)\<rparr>"
    by (simp add: demo_labels_def demo_commands_negative_def)
  from negative_label_never_candidate
      [of stable_argsort demo_labels demo_commands_negative "Finite (3 / 5)"
      "[Finite (1 / 2), Finite (9 / 20), Finite (3 / 100), Finite (1 / 50)]" 1 True
      "[[Finite (1 / 2), Finite (9 / 20), Finite (3 / 100), Finite (1 / 50)]]" 1 "[''KEY_UP'']"]
    d r n
  show ?thesis by simp
qed

section \<open>Properties of the command table\<close>

lemma float64_two_fifths: "float64 (2 / 5) = 3602879701896397 / 9007199254740992"
  by code_simp

lemma add_commands_append:
  "add_commands pf cmds (rows @ [row]) =
     (case add_commands pf cmds rows of Inl e \<Rightarrow> Inl e | Inr cmds' \<Rightarrow> add_command pf cmds' row)"
  by (induction rows arbitrary: cmds) (auto split: sum.splits)

lemma read_commands_append:
  "read_commands pf (lines @ [line]) =
     (case read_commands pf lines of
        Inl e \<Rightarrow> Inl e
      | Inr cmds \<Rightarrow> add_command pf cmds (split_on CHR '','' (rstrip line)))"
  by (simp add: read_commands_def add_commands_append)

lemma demo_line_left:
  "split_on CHR '','' (rstrip (''left,KEY_LEFT,'' @ [CHR 0x0A])) = [''left'', ''KEY_LEFT'', []]"
  by (simp add: rstrip_def is_space_def)

lemma demo_line_up:
  "split_on CHR '','' (rstrip (''up,KEY_UP,1.5'' @ [CHR 0x0A])) = [''up'', ''KEY_UP'', ''1.5'']"
  by (simp add: rstrip_def is_space_def)

text \<open>
  Claim C9: a command-table line \<open>label,key,confidence\<close> gives its label the confidence
  0.4 when the confidence field is empty, and also when the field parses to a float
  outside \<open>[0, 1]\<close> (NaN included); the line \<open>left,KEY_LEFT,\<close> gives \<open>left\<close> the
  threshold 0.4.  The line is the last one read, after lines that parsed to the table
  \<open>cmds\<close>: a later line with the same label would replace the entry.  The value of the
  literal \<^verbatim>\<open>0.4\<close> is the double \<open>3602879701896397 / 2 ^ 53\<close>.
\<close>

theorem read_commands_default_conf:
  assumes prev: "read_commands pf lines = Inr cmds"
    and row: "split_on CHR '','' (rstrip line) = [label, k, confidence]"
  shows "(confidence = [] \<longrightarrow>
            read_commands pf (lines @ [line])
              = Inr (cmds(label \<mapsto> \<lparr>key = k, conf = default_conf\<rparr>)))
       \<and> (\<forall>v. pf confidence = Some v \<and> \<not> (fle (Finite 0) v \<and> fle v (Finite 1)) \<longrightarrow>
            read_commands pf (lines @ [line])
              = Inr (cmds(label \<mapsto> \<lparr>key = k, conf = default_conf\<rparr>)))
       \<and> read_commands pf [''left,KEY_LEFT,'']
              = Inr [''left'' \<mapsto> \<lparr>key = ''KEY_LEFT'', conf = default_conf\<rparr>]
       \<and> default_conf = Finite (3602879701896397 / 9007199254740992)"
proof (intro conjI impI allI)
  assume "confidence = []"
  with prev row show "read_commands pf (lines @ [line])
      = Inr (cmds(label \<mapsto> \<lparr>key = k, conf = default_conf\<rparr>))"
    by (simp add: read_commands_append)
next
  fix v
  assume "pf confidence = Some v \<and> \<not> (fle (Finite 0) v \<and> fle v (Finite 1))"
  with prev row show "read_commands pf (lines @ [line])
      = Inr (cmds(label \<mapsto> \<lparr>key = k, conf = default_conf\<rparr>))"
    by (auto simp: read_commands_append Let_def)
next
  show "read_commands pf [''left,KEY_LEFT,'']
      = Inr [''left'' \<mapsto> \<lparr>key = ''KEY_LEFT'', conf = default_conf\<rparr>]"
    by (simp add: read_commands_def rstrip_def is_space_def)
next
  show "default_conf = Finite (3602879701896397 / 9007199254740992)"
    by (simp add: default_conf_def float64_two_fifths)
qed

text \<open>
  The theorem at the file whose only line is \<open>left,KEY_LEFT,\<close> with its line end, and
  at the file whose only line is \<open>up,KEY_UP,1.5\<close>, where \<^verbatim>\<open>float\<close> returns 1.5.
\<close>

theorem read_commands_default_conf_witness:
  "read_commands demo_float [] = Inr Map.empty
   \<and> read_commands demo_float ([] @ [''left,KEY_LEFT,'' @ [CHR 0x0A]])
       = Inr (Map.empty(''left'' \<mapsto> \<lparr>key = ''KEY_LEFT'', conf = default_conf\<rparr>))
   \<and> demo_float ''1.5'' = Some (Finite (3 / 2))
   \<and> \<not> fle (Finite (3 / 2)) (Finite 1)
   \<and> read_commands demo_float ([] @ [''up,KEY_UP,1.5'' @ [CHR 0x0A]])
       = Inr (Map.empty(''up'' \<mapsto> \<lparr>key = ''KEY_UP'', conf = default_conf\<rparr>))"
proof -
  have e: "read_commands demo_float [] = Inr Map.empty"
    by (simp add: read_commands_def)
  have f: "demo_float ''1.5'' = Some (Finite (3 / 2))"
    by (simp add: demo_float_def)
  have g: "\<not> fle (Finite (3 / 2)) (Finite 1)" by simp
  from read_commands_default_conf [OF e demo_line_left]
    read_commands_default_conf [OF e demo_line_up] e f g
  show ?thesis by simp
qed

section \<open>Properties of the queue of raw audio\<close>

lemma enqueue_raw_audio_bound:
  assumes "0 < maxsize (raw_audio_queue r)"
    and "int (length (items (raw_audio_queue r))) \<le> maxsize (raw_audio_queue r)"
  shows "maxsize (raw_audio_queue (snd (enqueue_raw_audio r d t))) = maxsize (raw_audio_queue r)
       \<and> int (length (items (raw_audio_queue (snd (enqueue_raw_audio r d t)))))
           \<le> maxsize (raw_audio_queue r)"
  using assms by (auto simp: enqueue_raw_audio_def queue_put_nowait_def)

lemma get_chunk_bound:
  assumes "int (length (items (raw_audio_queue r))) \<le> maxsize (raw_audio_queue r)"
  shows "maxsize (raw_audio_queue (snd (get_chunk r t))) = maxsize (raw_audio_queue r)
       \<and> int (length (items (raw_audio_queue (snd (get_chunk r t)))))
           \<le> maxsize (raw_audio_queue r)"
  using assms
  by (auto simp: get_chunk_def queue_get_def split: list.splits sum.splits prod.splits)

lemma run_op_bound:
  assumes "0 < maxsize (raw_audio_queue r)"
    and "int (length (items (raw_audio_queue r))) \<le> maxsize (raw_audio_queue r)"
  shows "maxsize (raw_audio_queue (run_op r x)) = maxsize (raw_audio_queue r)
       \<and> int (length (items (raw_audio_queue (run_op r x)))) \<le> maxsize (raw_audio_queue r)"
proof (cases x)
  case (Enqueue d t)
  with enqueue_raw_audio_bound [OF assms, of d t] show ?thesis by simp
next
  case (Dequeue t)
  with get_chunk_bound [OF assms(2), of t] show ?thesis by simp
qed

lemma run_ops_bound:
  "0 < maxsize (raw_audio_queue r) \<Longrightarrow>
   int (length (items (raw_audio_queue r))) \<le> maxsize (raw_audio_queue r) \<Longrightarrow>
   maxsize (raw_audio_queue (run_ops r ops)) = maxsize (raw_audio_queue r)
     \<and> int (length (items (raw_audio_queue (run_ops r ops)))) \<le> maxsize (raw_audio_queue r)"
proof (induction ops arbitrary: r)
  case Nil
  then show ?case by (simp add: run_ops_def)
next
  case (Cons x ops)
  from run_op_bound [OF Cons.prems, of x] have
    m: "maxsize (raw_audio_queue (run_op r x)) = maxsize (raw_audio_queue r)"
    and l: "int (length (items (raw_audio_queue (run_op r x)))) \<le> maxsize (raw_audio_queue r)"
    by simp_all
  from Cons.IH [of "run_op r x"] Cons.prems m l show ?case
    by (simp add: run_ops_def)
qed

text \<open>Enqueuing \<open>n\<close> chunks into a queue with room for them puts all of them in.\<close>

lemma run_ops_enqueues:
  "int (length (items (raw_audio_queue r))) + int n \<le> maxsize (raw_audio_queue r) \<Longrightarrow>
   run_ops r (replicate n (Enqueue d t))
     = r\<lparr>raw_audio_queue :=
           (raw_audio_queue r)\<lparr>items := items (raw_audio_queue r) @ replicate n (d, t)\<rparr>\<rparr>"
proof (induction n arbitrary: r)
  case 0
  then show ?case by (simp add: run_ops_def)
next
  case (Suc n)
  let ?r1 = "r\<lparr>raw_audio_queue :=
           (raw_audio_queue r)\<lparr>items := items (raw_audio_queue r) @ [(d, t)]\<rparr>\<rparr>"
  from Suc.prems have step: "run_op r (Enqueue d t) = ?r1"
    by (simp add: enqueue_raw_audio_def queue_put_nowait_def)
  from Suc.prems have
    "int (length (items (raw_audio_queue ?r1))) + int n \<le> maxsize (raw_audio_queue ?r1)"
    by simp
  from Suc.IH [OF this] step show ?case
    by (simp add: run_ops_def replicate_app_Cons_same)
qed

text \<open>
  Claim C3: the occupancy of the queue never exceeds its capacity, and an enqueue on a
  full queue fails with the overflow error.  For a recorder whose queue has a positive
  capacity \<open>C\<close> and holds at most \<open>C\<close> chunks (the queue that \<^verbatim>\<open>__init__\<close> makes has
  \<open>C = 1200\<close> and is empty), after every sequence of enqueues and dequeues the capacity
  is \<open>C\<close> still and the queue holds at most \<open>C\<close> chunks; and when it holds \<open>C\<close> chunks,
  \<^verbatim>\<open>_enqueue_raw_audio\<close> returns the exception \<^verbatim>\<open>TimeoutError("Raw audio buffer full.")\<close>
  and leaves the recorder as it was: the call does not wait (the put is
  \<^verbatim>\<open>block=False\<close>, a function of the queue's contents alone) and the chunk is refused
  by an exception, not dropped in silence.
\<close>

theorem queue_never_exceeds_capacity:
  assumes "0 < maxsize (raw_audio_queue r)"
    and "int (length (items (raw_audio_queue r))) \<le> maxsize (raw_audio_queue r)"
    and "r' = run_ops r ops"
  shows "maxsize (raw_audio_queue r') = maxsize (raw_audio_queue r)
       \<and> int (length (items (raw_audio_queue r'))) \<le> maxsize (raw_audio_queue r)
       \<and> (int (length (items (raw_audio_queue r'))) = maxsize (raw_audio_queue r) \<longrightarrow>
            enqueue_raw_audio r' in_data now = (Inl (TimeoutError Raw_audio_buffer_full), r'))"
proof -
  from run_ops_bound [OF assms(1,2), of ops] assms(3) have
    m: "maxsize (raw_audio_queue r') = maxsize (raw_audio_queue r)"
    and l: "int (length (items (raw_audio_queue r'))) \<le> maxsize (raw_audio_queue r)"
    by simp_all
  have "int (length (items (raw_audio_queue r'))) = maxsize (raw_audio_queue r) \<longrightarrow>
      enqueue_raw_audio r' in_data now = (Inl (TimeoutError Raw_audio_buffer_full), r')"
    using m assms(1) by (simp add: enqueue_raw_audio_def queue_put_nowait_def)
  with m l show ?thesis by blast
qed

text \<open>
  The theorem at the recorder that \<^verbatim>\<open>__init__\<close> makes for 48000 Hz and a downsample
  factor 3, after 1200 enqueues of a chunk of 1024 frames of silence and no dequeue: the
  queue holds 1200 chunks, and the next enqueue, the 1201st, raises.
\<close>

theorem queue_never_exceeds_capacity_witness:
  "(\<exists>r0 r'. recorder_init 48000 3 = Inr r0
      \<and> 0 < maxsize (raw_audio_queue r0)
      \<and> int (length (items (raw_audio_queue r0))) \<le> maxsize (raw_audio_queue r0)
      \<and> r' = run_ops r0 (replicate 1200 (Enqueue (silence 1024) 0))
      \<and> maxsize (raw_audio_queue r') = 1200
      \<and> int (length (items (raw_audio_queue r'))) = 1200
      \<and> enqueue_raw_audio r' (silence 1024) 1 = (Inl (TimeoutError Raw_audio_buffer_full), r'))"
proof -
  define r0 where "r0 = \<lparr>downsample_factor = 3, raw_audio_sample_rate_hz = 48000,
      audio_sample_rate_hz = 48000 div 3,
      raw_audio_queue = \<lparr>maxsize = max_queue_chunks, items = [], get_timeouts = []\<rparr>,
      stream_is_active = False\<rparr>"
  define r' where "r' = run_ops r0 (replicate 1200 (Enqueue (silence 1024) 0))"
  have init: "recorder_init 48000 3 = Inr r0"
    by (simp add: recorder_init_def r0_def)
  have m: "0 < maxsize (raw_audio_queue r0)" "maxsize (raw_audio_queue r0) = 1200"
    by (simp_all add: r0_def max_queue_chunks_def)
  have l: "int (length (items (raw_audio_queue r0))) \<le> maxsize (raw_audio_queue r0)"
    by (simp add: r0_def max_queue_chunks_def)
  have "int (length (items (raw_audio_queue r0))) + int 1200 \<le> maxsize (raw_audio_queue r0)"
    by (simp add: r0_def max_queue_chunks_def)
  from run_ops_enqueues [OF this, of "silence 1024" 0]
  have full: "int (length (items (raw_audio_queue r'))) = 1200"
    by (simp add: r'_def r0_def)
  from queue_never_exceeds_capacity [OF m(1) l r'_def, of "silence 1024" 1] m(2) full
  have "maxsize (raw_audio_queue r') = 1200
      \<and> enqueue_raw_audio r' (silence 1024) 1 = (Inl (TimeoutError Raw_audio_buffer_full), r')"
    by simp
  with init m(1) l r'_def full show ?thesis by blast
qed

end
